theory Spec2Isabelle
  imports Main "HOL-Library.Log_Nat"
begin

section \<open>Data model\<close>

text \<open>
  The three tables of \<^verbatim>\<open>db.js\<close> (\<^verbatim>\<open>initDatabase\<close>). A status column carries a
  \<^verbatim>\<open>CHECK(status IN (...))\<close> constraint, so a stored status is a value of a datatype; a
  status that arrives as an argument is still a JavaScript string.
\<close>

datatype user_status = Active | Inactive | Suspended

datatype product_status = Available | Out_of_stock | Discontinued

datatype order_status = Pending | Confirmed | Shipped | Delivered | Cancelled

fun product_status_name :: "product_status \<Rightarrow> string" where
  "product_status_name Available = ''available''"
| "product_status_name Out_of_stock = ''out_of_stock''"
| "product_status_name Discontinued = ''discontinued''"

fun order_status_name :: "order_status \<Rightarrow> string" where
  "order_status_name Pending = ''pending''"
| "order_status_name Confirmed = ''confirmed''"
| "order_status_name Shipped = ''shipped''"
| "order_status_name Delivered = ''delivered''"
| "order_status_name Cancelled = ''cancelled''"

text \<open>The \<^verbatim>\<open>CHECK\<close> on \<^verbatim>\<open>orders.status\<close>: a string that names no status cannot be stored.\<close>

definition order_status_of :: "string \<Rightarrow> order_status option" where
  "order_status_of s =
     (if s = ''pending'' then Some Pending
      else if s = ''confirmed'' then Some Confirmed
      else if s = ''shipped'' then Some Shipped
      else if s = ''delivered'' then Some Delivered
      else if s = ''cancelled'' then Some Cancelled
      else None)"

record user =
  user_name :: string
  user_email :: string
  user_status :: user_status

text \<open>
  A product row. Prices and totals are JavaScript numbers, that is IEEE-754 binary64
  values; the model keeps the rational number each of them denotes.
\<close>

record product =
  name :: string
  price :: rat
  stockQuantity :: int
  status :: product_status

record order =
  user_id :: int
  product_id :: int
  quantity :: int
  unit_price :: rat
  total_price :: rat
  order_status :: order_status
  order_notes :: "string option"

text \<open>
  The tables, keyed by their \<^verbatim>\<open>INTEGER PRIMARY KEY AUTOINCREMENT\<close>; \<open>order_seq\<close> is the
  last identifier handed out for \<^verbatim>\<open>orders\<close>.
\<close>

record tables =
  users :: "int \<rightharpoonup> user"
  products :: "int \<rightharpoonup> product"
  orders :: "int \<rightharpoonup> order"
  order_seq :: int

text \<open>
  The connection of \<^verbatim>\<open>DatabaseManager\<close>: the rows as the connection sees them, and,
  while a transaction is open, the rows as they were at \<^verbatim>\<open>BEGIN TRANSACTION\<close>.
\<close>

record db =
  live :: tables
  saved :: "tables option"

section \<open>Rendering numbers in messages\<close>

text \<open>A template literal \<^verbatim>\<open>${n}\<close> prints an integer in decimal.\<close>

definition digit_char :: "nat \<Rightarrow> char" where
  "digit_char d = ''0123456789'' ! d"

fun show_nat :: "nat \<Rightarrow> string" where
  "show_nat n = (if n < 10 then [digit_char n] else show_nat (n div 10) @ [digit_char (n mod 10)])"

declare show_nat.simps [simp del]

definition show_int :: "int \<Rightarrow> string" where
  "show_int i = (if i < 0 then CHR ''-'' # show_nat (nat (- i)) else show_nat (nat i))"

section \<open>Transactions (\<^verbatim>\<open>db.js\<close>, lines 141 to 151)\<close>

text \<open>
  SQLite refuses a \<^verbatim>\<open>BEGIN\<close> inside a transaction and a \<^verbatim>\<open>COMMIT\<close> or \<^verbatim>\<open>ROLLBACK\<close>
  outside one; \<^verbatim>\<open>db.run\<close> then rejects with the engine's error.
\<close>

definition beginTransaction :: "db \<Rightarrow> string + db" where
  "beginTransaction d =
     (case saved d of
        Some _ \<Rightarrow> Inl ''SQLITE_ERROR: cannot start a transaction within a transaction''
      | None \<Rightarrow> Inr (d\<lparr>saved := Some (live d)\<rparr>))"

definition commitTransaction :: "db \<Rightarrow> string + db" where
  "commitTransaction d =
     (case saved d of
        None \<Rightarrow> Inl ''SQLITE_ERROR: cannot commit - no transaction is active''
      | Some _ \<Rightarrow> Inr (d\<lparr>saved := None\<rparr>))"

definition rollbackTransaction :: "db \<Rightarrow> string + db" where
  "rollbackTransaction d =
     (case saved d of
        None \<Rightarrow> Inl ''SQLITE_ERROR: cannot rollback - no transaction is active''
      | Some t \<Rightarrow> Inr (d\<lparr>live := t, saved := None\<rparr>))"

text \<open>
  The \<^verbatim>\<open>catch\<close> blocks of the models run \<^verbatim>\<open>await db.rollbackTransaction(); throw error\<close>:
  when the rollback itself rejects, its error is the one that propagates.
\<close>

definition rollback_and_throw :: "string \<Rightarrow> db \<Rightarrow> string \<times> db" where
  "rollback_and_throw e d =
     (case rollbackTransaction d of Inl e' \<Rightarrow> (e', d) | Inr d' \<Rightarrow> (e, d'))"

section \<open>Orders (\<^verbatim>\<open>models/orderModel.js\<close>)\<close>

text \<open>An optional argument of a JavaScript function, with its default.\<close>

datatype 'a arg = Omitted | Given 'a

fun arg_or :: "'a \<Rightarrow> 'a arg \<Rightarrow> 'a" where
  "arg_or d Omitted = d"
| "arg_or d (Given x) = x"

text \<open>\<^verbatim>\<open>findById\<close>: the row, or \<^verbatim>\<open>null\<close>.\<close>

definition findById :: "db \<Rightarrow> int \<Rightarrow> order option" where
  "findById d i = orders (live d) i"

text \<open>
  \<^verbatim>\<open>findByIdWithDetails\<close>: the order joined with its user and its product; an inner join,
  so \<^verbatim>\<open>null\<close> when either is missing.
\<close>

record order_details =
  details_id :: int
  details_order :: order
  details_user_name :: string
  details_user_email :: string
  details_product_name :: string

definition findByIdWithDetails :: "db \<Rightarrow> int \<Rightarrow> order_details option" where
  "findByIdWithDetails d i =
     (case orders (live d) i of
        None \<Rightarrow> None
      | Some ord \<Rightarrow>
          (case users (live d) (user_id ord) of
             None \<Rightarrow> None
           | Some u \<Rightarrow>
               (case products (live d) (product_id ord) of
                  None \<Rightarrow> None
                | Some p \<Rightarrow>
                    Some \<lparr>details_id = i, details_order = ord, details_user_name = user_name u,
                          details_user_email = user_email u, details_product_name = name p\<rparr>)))"

text \<open>The table of \<^verbatim>\<open>updateStatus\<close> (lines 326 to 332).\<close>

fun validTransitions :: "order_status \<Rightarrow> string list" where
  "validTransitions Pending = [''confirmed'', ''cancelled'']"
| "validTransitions Confirmed = [''shipped'', ''cancelled'']"
| "validTransitions Shipped = [''delivered'', ''cancelled'']"
| "validTransitions Delivered = []"
| "validTransitions Cancelled = []"

text \<open>
  \<^verbatim>\<open>UPDATE orders SET status = ?, notes = ? WHERE id = ?\<close>: the number of rows changed and
  the new tables, or the constraint failure of the status \<^verbatim>\<open>CHECK\<close>.
\<close>

definition run_update_order ::
  "db \<Rightarrow> int \<Rightarrow> string \<Rightarrow> string option \<Rightarrow> string + (nat \<times> db)" where
  "run_update_order d i st nt =
     (case orders (live d) i of
        None \<Rightarrow> Inr (0, d)
      | Some ord \<Rightarrow>
          (case order_status_of st of
             None \<Rightarrow> Inl ''SQLITE_CONSTRAINT: CHECK constraint failed: orders''
           | Some s \<Rightarrow>
               Inr (1, d\<lparr>live := (live d)\<lparr>orders :=
                          (orders (live d))(i \<mapsto> ord\<lparr>order_status := s, order_notes := nt\<rparr>)\<rparr>\<rparr>)))"

definition updateStatus ::
  "db \<Rightarrow> int \<Rightarrow> string \<Rightarrow> string option arg \<Rightarrow> (string + order_details option) \<times> db" where
  "updateStatus d i st notes_arg =
     (let nt = arg_or None notes_arg in
      case findById d i of
        None \<Rightarrow> (Inl (''Order with ID '' @ show_int i @ '' not found''), d)
      | Some existingOrder \<Rightarrow>
          (let currentStatus = order_status existingOrder in
           if st \<notin> set (validTransitions currentStatus)
           then (Inl (''Cannot change status from '' @ order_status_name currentStatus
                       @ '' to '' @ st), d)
           else
             (case run_update_order d i st nt of
                Inl e \<Rightarrow> (Inl e, d)
              | Inr (changes, d') \<Rightarrow>
                  if changes = 0
                  then (Inl (''Failed to update order status for ID '' @ show_int i), d')
                  else (Inr (findByIdWithDetails d' i), d'))))"


text \<open>
  The restore of \<^verbatim>\<open>cancel\<close> (lines 396 to 405). Every expression on the right of \<^verbatim>\<open>SET\<close>
  reads the row as it was before the statement; the \<^verbatim>\<open>CHECK(stockQuantity >= 0)\<close> of
  the table applies to the new row; no row matches when the product is missing.
\<close>

definition run_restore_stock :: "db \<Rightarrow> int \<Rightarrow> int \<Rightarrow> string + db" where
  "run_restore_stock d pid q =
     (case products (live d) pid of
        None \<Rightarrow> Inr d
      | Some p \<Rightarrow>
          (let p' = p\<lparr>stockQuantity := stockQuantity p + q,
                      status := (if status p = Out_of_stock \<and> stockQuantity p + q > 0
                                 then Available else status p)\<rparr>
           in if stockQuantity p' < 0
              then Inl ''SQLITE_CONSTRAINT: CHECK constraint failed: products''
              else Inr (d\<lparr>live := (live d)\<lparr>products := (products (live d))(pid \<mapsto> p')\<rparr>\<rparr>)))"

text \<open>The \<^verbatim>\<open>catch\<close> of a transaction block, as a result of the operation.\<close>

definition failed :: "string \<Rightarrow> db \<Rightarrow> (string + 'a) \<times> db" where
  "failed e d = (case rollback_and_throw e d of (e', d') \<Rightarrow> (Inl e', d'))"

definition cancel ::
  "db \<Rightarrow> int \<Rightarrow> string option arg \<Rightarrow> (string + order_details option) \<times> db" where
  "cancel d i reason_arg =
     (let reason = arg_or None reason_arg in
      case findById d i of
        None \<Rightarrow> (Inl (''Order with ID '' @ show_int i @ '' not found''), d)
      | Some ord \<Rightarrow>
          if order_status ord = Cancelled then (Inl ''Order is already cancelled'', d)
          else if order_status ord = Delivered then (Inl ''Cannot cancel delivered order'', d)
          else
            (case beginTransaction d of
               Inl e \<Rightarrow> (Inl e, d)
             | Inr d1 \<Rightarrow>
                 (case run_update_order d1 i ''cancelled'' reason of
                    Inl e \<Rightarrow> failed e d1
                  | Inr (changes, d2) \<Rightarrow>
                      (case run_restore_stock d2 (product_id ord) (quantity ord) of
                         Inl e \<Rightarrow> failed e d2
                       | Inr d3 \<Rightarrow>
                           (case commitTransaction d3 of
                              Inl e \<Rightarrow> failed e d3
                            | Inr d4 \<Rightarrow> (Inr (findByIdWithDetails d4 i), d4))))))"

section \<open>Business validators (\<^verbatim>\<open>utils/validation.js\<close>)\<close>

definition userExists :: "db \<Rightarrow> int \<Rightarrow> bool" where
  "userExists d uid =
     (case users (live d) uid of None \<Rightarrow> False | Some u \<Rightarrow> user_status u = Active)"

text \<open>
  The row that \<^verbatim>\<open>SELECT id, name, price, stockQuantity, status FROM products\<close> returns.
\<close>

record snapshot =
  snap_id :: int
  snap_name :: string
  snap_price :: rat
  snap_stockQuantity :: int
  snap_status :: product_status

datatype availability = Not_available string | Is_available snapshot

definition select_snapshot :: "db \<Rightarrow> int \<Rightarrow> snapshot option" where
  "select_snapshot d pid =
     (case products (live d) pid of
        None \<Rightarrow> None
      | Some p \<Rightarrow>
          Some \<lparr>snap_id = pid, snap_name = name p, snap_price = price p,
                snap_stockQuantity = stockQuantity p, snap_status = status p\<rparr>)"

text \<open>
  \<^verbatim>\<open>productAvailable\<close> (lines 261 to 289). It returns its answer together with the
  connection, which it only reads.
\<close>

definition productAvailable :: "db \<Rightarrow> int \<Rightarrow> int \<Rightarrow> availability \<times> db" where
  "productAvailable d productId requestedQuantity =
     (case select_snapshot d productId of
        None \<Rightarrow> (Not_available ''Product not found'', d)
      | Some product \<Rightarrow>
          if snap_status product \<noteq> Available
          then (Not_available (''Product is '' @ product_status_name (snap_status product)), d)
          else if snap_stockQuantity product < requestedQuantity
          then (Not_available (''Insufficient stock. Available: ''
                                @ show_int (snap_stockQuantity product)
                                @ '', Requested: '' @ show_int requestedQuantity), d)
          else (Is_available product, d))"


section \<open>JavaScript numbers\<close>

text \<open>
  A number is a binary64 value. The product of two numbers is the binary64 value nearest
  to the exact product, ties to the even significand: 53 significant bits, and below
  \<open>2\<^sup>-\<^sup>1\<^sup>0\<^sup>2\<^sup>2\<close> the fixed spacing \<open>2\<^sup>-\<^sup>1\<^sup>0\<^sup>7\<^sup>4\<close> of the subnormal numbers. (Prices and
  quantities are far from the overflow to \<^verbatim>\<open>Infinity\<close>, which is left out.)
\<close>

definition pow2 :: "int \<Rightarrow> rat" where
  "pow2 k = (if 0 \<le> k then 2 ^ nat k else 1 / 2 ^ nat (- k))"

definition floor_log2 :: "rat \<Rightarrow> int" where
  "floor_log2 x =
     (let (p, q) = quotient_of x; k = bitlen p - bitlen q
      in if pow2 k \<le> x then k else k - 1)"

definition round_half_even :: "rat \<Rightarrow> int" where
  "round_half_even y =
     (let f = \<lfloor>y\<rfloor>; r = y - of_int f
      in if r < 1 / 2 then f else if 1 / 2 < r then f + 1 else if even f then f else f + 1)"

definition binary64 :: "rat \<Rightarrow> rat" where
  "binary64 x =
     (if x = 0 then 0
      else (let e = max (floor_log2 \<bar>x\<bar> - 52) (- 1074)
            in of_int (round_half_even (x / pow2 e)) * pow2 e))"

definition js_times :: "rat \<Rightarrow> rat \<Rightarrow> rat" where
  "js_times x y = binary64 (x * y)"

text \<open>
  \<^verbatim>\<open>parseInt\<close> of a number first prints the number and then reads the digits up to the
  first character that is not one. Printing (\<^verbatim>\<open>Number::toString\<close>) takes the decimal with the
  fewest significant digits that still denotes the number, the nearest one when there
  are several: \<open>digits_at v n k\<close> looks for it among the decimals with \<open>k\<close> digits, where
  \<open>10\<^sup>n\<^sup>-\<^sup>1 \<le> v < 10\<^sup>n\<close>, and seventeen digits always suffice. The decimal is printed
  in full when it lies between \<open>10\<^sup>-\<^sup>6\<close> and \<open>10\<^sup>2\<^sup>1\<close>, so that \<^verbatim>\<open>parseInt\<close> reads its integer
  part, and with an exponent otherwise, so that \<^verbatim>\<open>parseInt\<close> reads its first digit.
\<close>

definition pow10 :: "int \<Rightarrow> rat" where
  "pow10 k = (if 0 \<le> k then 10 ^ nat k else 1 / 10 ^ nat (- k))"

function decimal_digits :: "int \<Rightarrow> int" where
  "decimal_digits i = (if i < 10 then 1 else decimal_digits (i div 10) + 1)"
  by pat_completeness auto
termination
  by (relation "measure nat") auto

declare decimal_digits.simps [simp del]

definition floor_log10 :: "rat \<Rightarrow> int" where
  "floor_log10 x =
     (let (p, q) = quotient_of x; k = decimal_digits p - decimal_digits q
      in if pow10 k \<le> x then k else k - 1)"

definition digits_at :: "rat \<Rightarrow> int \<Rightarrow> nat \<Rightarrow> rat option" where
  "digits_at v n k =
     (let u = pow10 (n - int k);
          s = \<lfloor>v / u\<rfloor>;
          lo = of_int s * u;
          hi = of_int (s + 1) * u
      in if binary64 lo = v \<and> binary64 hi = v
         then (if v - lo < hi - v then Some lo
               else if hi - v < v - lo then Some hi
               else if even s then Some lo else Some hi)
         else if binary64 lo = v then Some lo
         else if binary64 hi = v then Some hi
         else None)"

fun shortest :: "nat \<Rightarrow> nat \<Rightarrow> rat \<Rightarrow> int \<Rightarrow> rat" where
  "shortest 0 k v n = v"
| "shortest (Suc fuel) k v n =
     (case digits_at v n k of Some r \<Rightarrow> r | None \<Rightarrow> shortest fuel (Suc k) v n)"

definition shortest_decimal :: "rat \<Rightarrow> rat" where
  "shortest_decimal v = shortest 17 1 v (floor_log10 v + 1)"

definition parseInt :: "rat \<Rightarrow> int" where
  "parseInt q =
     (if q = 0 then 0
      else (let r = shortest_decimal \<bar>q\<bar>;
                n = floor_log10 r + 1;
                m = (if 0 < n \<and> n \<le> 21 then \<lfloor>r\<rfloor>
                     else if - 6 < n \<and> n \<le> 0 then 0
                     else \<lfloor>r / pow10 (n - 1)\<rfloor>)
            in if q < 0 then - m else m))"

section \<open>Order creation (\<^verbatim>\<open>OrderModel.create\<close>)\<close>

text \<open>
  \<^verbatim>\<open>db.run\<close> and \<^verbatim>\<open>db.get\<close> reject when the engine reports an error (\<^verbatim>\<open>db.js\<close>, lines 88
  to 94 and 108 to 113). Besides the constraint failures, which the model computes, the
  engine can fail a call for reasons outside the tables; for the calls that
  \<^verbatim>\<open>create\<close> makes once its transaction is open, the set \<open>F\<close> says which do.
\<close>

datatype call = Insert_order | Commit | Read_back

definition engine_error :: string where
  "engine_error = ''SQLITE_IOERR: disk I/O error''"

text \<open>
  The trigger \<^verbatim>\<open>update_stock_on_order\<close> (\<^verbatim>\<open>db.js\<close>, lines 281 to 293), on the tables and
  the new row's product and quantity.
\<close>

definition update_stock_on_order :: "tables \<Rightarrow> int \<Rightarrow> int \<Rightarrow> string + tables" where
  "update_stock_on_order t pid q =
     (case products t pid of
        None \<Rightarrow> Inr t
      | Some p \<Rightarrow>
          (let p' = p\<lparr>stockQuantity := stockQuantity p - q,
                      status := (if stockQuantity p - q \<le> 0 then Out_of_stock else status p)\<rparr>
           in if stockQuantity p' < 0
              then Inl ''SQLITE_CONSTRAINT: CHECK constraint failed: products''
              else Inr (t\<lparr>products := (products t)(pid \<mapsto> p')\<rparr>)))"

text \<open>
  The \<^verbatim>\<open>INSERT INTO orders\<close> of \<^verbatim>\<open>create\<close>: the \<^verbatim>\<open>CHECK(quantity > 0)\<close>, the new row
  with the default status, the trigger, the foreign keys. A statement that fails
  changes nothing. The result is \<^verbatim>\<open>lastID\<close> and the connection.
\<close>

definition run_insert_order ::
  "call set \<Rightarrow> db \<Rightarrow> int \<Rightarrow> int \<Rightarrow> int \<Rightarrow> rat \<Rightarrow> rat \<Rightarrow> string option \<Rightarrow> string + (int \<times> db)"
  where
  "run_insert_order F d uid pid q uprice tprice nt =
     (if Insert_order \<in> F then Inl engine_error
      else if q \<le> 0 then Inl ''SQLITE_CONSTRAINT: CHECK constraint failed: orders''
      else
        (let t = live d;
             new_id = order_seq t + 1;
             row = \<lparr>user_id = uid, product_id = pid, quantity = q, unit_price = uprice,
                    total_price = tprice, order_status = Pending, order_notes = nt\<rparr>;
             t' = t\<lparr>orders := (orders t)(new_id \<mapsto> row), order_seq := new_id\<rparr>
         in case update_stock_on_order t' pid q of
              Inl e \<Rightarrow> Inl e
            | Inr t'' \<Rightarrow>
                if users t uid = None \<or> products t pid = None
                then Inl ''SQLITE_CONSTRAINT: FOREIGN KEY constraint failed''
                else Inr (new_id, d\<lparr>live := t''\<rparr>)))"

definition run_commit :: "call set \<Rightarrow> db \<Rightarrow> string + db" where
  "run_commit F d = (if Commit \<in> F then Inl engine_error else commitTransaction d)"

definition read_back :: "call set \<Rightarrow> db \<Rightarrow> int \<Rightarrow> string + order_details option" where
  "read_back F d i = (if Read_back \<in> F then Inl engine_error else Inr (findByIdWithDetails d i))"

text \<open>The argument of \<^verbatim>\<open>create\<close>; the quantity is whatever number the caller passes.\<close>

record order_data =
  data_user_id :: int
  data_product_id :: int
  data_quantity :: rat
  data_notes :: "string option"

text \<open>\<^verbatim>\<open>notes || null\<close>: the empty string is falsy.\<close>

definition or_null :: "string option \<Rightarrow> string option" where
  "or_null nt = (case nt of None \<Rightarrow> None | Some s \<Rightarrow> if s = [] then None else Some s)"

definition create ::
  "call set \<Rightarrow> db \<Rightarrow> order_data \<Rightarrow> (string + order_details option) \<times> db" where
  "create F d orderData =
     (if data_user_id orderData = 0 \<or> data_product_id orderData = 0 \<or> data_quantity orderData = 0
      then (Inl ''User ID, Product ID, and quantity are required'', d)
      else
        (let numericQuantity = parseInt (data_quantity orderData) in
         if numericQuantity \<le> 0 then (Inl ''Quantity must be a positive integer'', d)
         else if \<not> userExists d (data_user_id orderData)
         then (Inl ''User not found or inactive'', d)
         else
           (case fst (productAvailable d (data_product_id orderData) numericQuantity) of
              Not_available reason \<Rightarrow> (Inl reason, d)
            | Is_available product \<Rightarrow>
                (case beginTransaction d of
                   Inl e \<Rightarrow> (Inl e, d)
                 | Inr d1 \<Rightarrow>
                     (let unit_price = snap_price product;
                          total_price = js_times unit_price (of_int numericQuantity)
                      in case run_insert_order F d1 (data_user_id orderData)
                                (data_product_id orderData) numericQuantity unit_price total_price
                                (or_null (data_notes orderData)) of
                           Inl e \<Rightarrow> failed e d1
                         | Inr (new_id, d2) \<Rightarrow>
                             (case run_commit F d2 of
                                Inl e \<Rightarrow> failed e d2
                              | Inr d3 \<Rightarrow>
                                  (case read_back F d3 new_id of
                                     Inl e \<Rightarrow> failed e d3
                                   | Inr r \<Rightarrow> (Inr r, d3))))))))"

section \<open>Products (\<^verbatim>\<open>ProductModel\<close>)\<close>

definition product_findById :: "db \<Rightarrow> int \<Rightarrow> product option" where
  "product_findById d i = products (live d) i"

text \<open>
  \<^verbatim>\<open>UPDATE products SET stockQuantity = ?, status = ? WHERE id = ?\<close>, with the row count.
\<close>

definition run_set_stock ::
  "db \<Rightarrow> int \<Rightarrow> int \<Rightarrow> product_status \<Rightarrow> string + (nat \<times> db)" where
  "run_set_stock d i n st =
     (case products (live d) i of
        None \<Rightarrow> Inr (0, d)
      | Some p \<Rightarrow>
          if n < 0 then Inl ''SQLITE_CONSTRAINT: CHECK constraint failed: products''
          else Inr (1, d\<lparr>live := (live d)\<lparr>products :=
                       (products (live d))(i \<mapsto> p\<lparr>stockQuantity := n, status := st\<rparr>)\<rparr>\<rparr>))"

text \<open>
  \<^verbatim>\<open>updateStock\<close> (lines 297 to 360). Its \<^verbatim>\<open>BEGIN\<close> is inside the \<^verbatim>\<open>try\<close>, so every
  failure, that of \<^verbatim>\<open>BEGIN\<close> too, goes through the rollback of the \<^verbatim>\<open>catch\<close>.
\<close>

definition updateStock ::
  "db \<Rightarrow> int \<Rightarrow> int \<Rightarrow> string arg \<Rightarrow> (string + product option) \<times> db" where
  "updateStock d i quantityChange operation_arg =
     (let operation = arg_or ''subtract'' operation_arg in
      case beginTransaction d of
        Inl e \<Rightarrow> failed e d
      | Inr d1 \<Rightarrow>
          (case product_findById d1 i of
             None \<Rightarrow> failed (''Product with ID '' @ show_int i @ '' not found'') d1
           | Some product \<Rightarrow>
               (case (if operation = ''add''
                      then Inr (stockQuantity product + quantityChange)
                      else if operation = ''subtract''
                      then (if stockQuantity product - quantityChange < 0
                            then Inl (''Insufficient stock. Available: ''
                                       @ show_int (stockQuantity product)
                                       @ '', Requested: '' @ show_int quantityChange)
                            else Inr (stockQuantity product - quantityChange))
                      else Inl (''Invalid operation. Use '' @ [CHR 0x22] @ ''add'' @ [CHR 0x22]
                                 @ '' or '' @ [CHR 0x22] @ ''subtract'' @ [CHR 0x22])) of
                  Inl e \<Rightarrow> failed e d1
                | Inr newQuantity \<Rightarrow>
                    (let newStatus = (if newQuantity = 0 then Out_of_stock else Available)
                     in case run_set_stock d1 i newQuantity newStatus of
                          Inl e \<Rightarrow> failed e d1
                        | Inr (changes, d2) \<Rightarrow>
                            if changes = 0
                            then failed (''Failed to update stock for product ID ''
                                          @ show_int i) d2
                            else
                              (case commitTransaction d2 of
                                 Inl e \<Rightarrow> failed e d2
                               | Inr d3 \<Rightarrow> (Inr (product_findById d3 i), d3))))))"

text \<open>
  \<^verbatim>\<open>update\<close> (lines 232 to 294), for the columns \<^verbatim>\<open>price\<close>, \<^verbatim>\<open>stockQuantity\<close> and
  \<^verbatim>\<open>status\<close>: a field that is absent from \<^verbatim>\<open>updateData\<close> is \<open>None\<close>. The statement
  assigns the fields that are present and no other.
\<close>

record update_data =
  upd_price :: "rat option"
  upd_stockQuantity :: "int option"
  upd_status :: "product_status option"

definition set_fields :: "update_data \<Rightarrow> product \<Rightarrow> product" where
  "set_fields u p =
     p\<lparr>price := (case upd_price u of None \<Rightarrow> price p | Some x \<Rightarrow> x),
       stockQuantity := (case upd_stockQuantity u of None \<Rightarrow> stockQuantity p | Some n \<Rightarrow> n),
       status := (case upd_status u of None \<Rightarrow> status p | Some s \<Rightarrow> s)\<rparr>"

definition run_update_product :: "db \<Rightarrow> int \<Rightarrow> update_data \<Rightarrow> string + (nat \<times> db)" where
  "run_update_product d i u =
     (case products (live d) i of
        None \<Rightarrow> Inr (0, d)
      | Some p \<Rightarrow>
          (let p' = set_fields u p
           in if price p' < binary64 (1 / 100) \<or> stockQuantity p' < 0
              then Inl ''SQLITE_CONSTRAINT: CHECK constraint failed: products''
              else Inr (1, d\<lparr>live := (live d)\<lparr>products := (products (live d))(i \<mapsto> p')\<rparr>\<rparr>)))"

definition product_update ::
  "db \<Rightarrow> int \<Rightarrow> update_data \<Rightarrow> (string + product option) \<times> db" where
  "product_update d i updateData =
     (case product_findById d i of
        None \<Rightarrow> (Inl (''Product with ID '' @ show_int i @ '' not found''), d)
      | Some existingProduct \<Rightarrow>
          if upd_price updateData = None \<and> upd_stockQuantity updateData = None
             \<and> upd_status updateData = None
          then (Inl ''No valid fields to update'', d)
          else
            (case run_update_product d i updateData of
               Inl e \<Rightarrow> (Inl e, d)
             | Inr (changes, d') \<Rightarrow>
                 if changes = 0
                 then (Inl (''Failed to update product with ID '' @ show_int i), d')
                 else (Inr (product_findById d' i), d')))"


section \<open>The route \<^verbatim>\<open>POST /orders\<close> (\<^verbatim>\<open>routes/orders.js\<close>, lines 19 to 84)\<close>

text \<open>
  The rules of the Joi schemas of \<^verbatim>\<open>utils/validation.js\<close>, on a field that is a number:
  every number schema refuses a number beyond the safe integers, \<^verbatim>\<open>integer()\<close> asks that
  \<^verbatim>\<open>Math.trunc(value) - value\<close> be zero, \<^verbatim>\<open>positive()\<close> that the value exceed zero.
\<close>

definition math_trunc :: "rat \<Rightarrow> int" where
  "math_trunc v = (if v < 0 then - \<lfloor>- v\<rfloor> else \<lfloor>v\<rfloor>)"

definition joi_number :: "rat \<Rightarrow> bool" where
  "joi_number v \<longleftrightarrow> \<bar>v\<bar> \<le> 2 ^ 53 - 1"

definition joi_integer :: "rat \<Rightarrow> bool" where
  "joi_integer v \<longleftrightarrow> of_int (math_trunc v) - v = 0"

definition joi_positive :: "rat \<Rightarrow> bool" where
  "joi_positive v \<longleftrightarrow> 0 < v"

text \<open>
  \<^verbatim>\<open>customValidation.quantity\<close> (lines 45 to 54); \<open>limit\<close> is the value of
  \<^verbatim>\<open>parseInt(process.env.MAX_ORDER_QUANTITY) || 100\<close>.
\<close>

definition customValidation_quantity :: "int \<Rightarrow> rat \<Rightarrow> bool" where
  "customValidation_quantity limit v \<longleftrightarrow>
     joi_number v \<and> joi_integer v \<and> joi_positive v \<and> 1 \<le> v \<and> v \<le> of_int limit"

text \<open>\<^verbatim>\<open>Joi.number().integer().positive()\<close>, the schema of both identifiers.\<close>

definition positive_integer :: "rat \<Rightarrow> bool" where
  "positive_integer v \<longleftrightarrow> joi_number v \<and> joi_integer v \<and> joi_positive v"

text \<open>
  \<^verbatim>\<open>Joi.string().max(200).trim().allow('', null)\<close>: with \<^verbatim>\<open>convert\<close> the string is trimmed
  first. A character stands for a code unit below 256; of these the tab, the line feed,
  the vertical tab, the form feed, the carriage return, the space and the no-break space
  are white space.
\<close>

definition white_space :: "char \<Rightarrow> bool" where
  "white_space c \<longleftrightarrow>
     c \<in> set [CHR 0x09, CHR 0x0A, CHR 0x0B, CHR 0x0C, CHR 0x0D, CHR 0x20, CHR 0xA0]"

definition js_trim :: "string \<Rightarrow> string" where
  "js_trim s = rev (dropWhile white_space (rev (dropWhile white_space s)))"

text \<open>
  The body of a request: a field that is absent (or \<^verbatim>\<open>null\<close>, for the notes) is \<open>None\<close>.
\<close>

record order_body =
  body_user_id :: "rat option"
  body_product_id :: "rat option"
  body_quantity :: "rat option"
  body_notes :: "string option"

text \<open>
  \<^verbatim>\<open>schemas.createOrder\<close> (lines 116 to 121) under \<^verbatim>\<open>validate\<close> (lines 151 to 202): the
  converted value that replaces \<^verbatim>\<open>req.body\<close>, or \<open>None\<close> when a rule fails.
\<close>

definition schemas_createOrder :: "int \<Rightarrow> order_body \<Rightarrow> order_data option" where
  "schemas_createOrder limit b =
     (case body_user_id b of
        None \<Rightarrow> None
      | Some u \<Rightarrow>
          (case body_product_id b of
             None \<Rightarrow> None
           | Some p \<Rightarrow>
               (case body_quantity b of
                  None \<Rightarrow> None
                | Some q \<Rightarrow>
                    if positive_integer u \<and> positive_integer p
                       \<and> customValidation_quantity limit q
                       \<and> (case body_notes b of None \<Rightarrow> True
                            | Some s \<Rightarrow> length (js_trim s) \<le> 200)
                    then Some \<lparr>data_user_id = math_trunc u, data_product_id = math_trunc p,
                                data_quantity = q,
                                data_notes = map_option js_trim (body_notes b)\<rparr>
                    else None)))"

text \<open>The JSON that the route answers with, and its status.\<close>

record response =
  res_status :: nat
  res_success :: bool
  res_message :: "string option"
  res_error :: "string option"
  res_data :: "order_details option"

text \<open>\<^verbatim>\<open>String.prototype.includes\<close>.\<close>

fun js_includes :: "string \<Rightarrow> string \<Rightarrow> bool" where
  "js_includes [] s = (s = [])"
| "js_includes (c # cs) s = (take (length s) (c # cs) = s \<or> js_includes cs s)"

text \<open>The answer of \<^verbatim>\<open>validate\<close> to a body that fails the schema (lines 169 to 189).\<close>

definition validation_failed :: response where
  "validation_failed =
     \<lparr>res_status = 400, res_success = False, res_message = None,
      res_error = Some ''Validation failed'', res_data = None\<rparr>"

text \<open>The \<^verbatim>\<open>catch\<close> of the handler (lines 43 to 83).\<close>

definition error_response :: "string \<Rightarrow> response" where
  "error_response e =
     (if js_includes e ''not found''
      then \<lparr>res_status = 404, res_success = False, res_message = Some ''Resource not found'',
            res_error = Some e, res_data = None\<rparr>
      else if js_includes e ''inactive'' \<or> js_includes e ''stock''
              \<or> js_includes e ''out_of_stock''
      then \<lparr>res_status = 400, res_success = False,
            res_message = Some ''Order validation failed'', res_error = Some e,
            res_data = None\<rparr>
      else if js_includes e ''validation'' \<or> js_includes e ''required''
      then \<lparr>res_status = 400, res_success = False, res_message = Some ''Validation error'',
            res_error = Some e, res_data = None\<rparr>
      else \<lparr>res_status = 500, res_success = False,
            res_message = Some ''Internal server error'',
            res_error = Some ''Failed to create order'', res_data = None\<rparr>)"

text \<open>
  The route: the \<^verbatim>\<open>validate\<close> middleware, then the handler, which calls \<^verbatim>\<open>create\<close> with the
  converted body. When \<^verbatim>\<open>create\<close> returns \<^verbatim>\<open>null\<close> the handler's \<^verbatim>\<open>order.id\<close> throws a
  \<^verbatim>\<open>TypeError\<close>, whose message contains none of the words that the \<^verbatim>\<open>catch\<close> looks for.
\<close>

definition post_orders :: "int \<Rightarrow> call set \<Rightarrow> db \<Rightarrow> order_body \<Rightarrow> response \<times> db" where
  "post_orders limit F d body =
     (case schemas_createOrder limit body of
        None \<Rightarrow> (validation_failed, d)
      | Some orderData \<Rightarrow>
          (case create F d orderData of
             (Inl e, d') \<Rightarrow> (error_response e, d')
           | (Inr None, d') \<Rightarrow>
               (\<lparr>res_status = 500, res_success = False,
                 res_message = Some ''Internal server error'',
                 res_error = Some ''Failed to create order'', res_data = None\<rparr>, d')
           | (Inr (Some ord), d') \<Rightarrow>
               (\<lparr>res_status = 201, res_success = True,
                 res_message = Some ''Order created successfully'', res_error = None,
                 res_data = Some ord\<rparr>, d')))"

section \<open>The transition table as the specification words it\<close>

fun spec_transition :: "order_status \<Rightarrow> order_status \<Rightarrow> bool" where
  "spec_transition Pending s = (s = Confirmed \<or> s = Cancelled)"
| "spec_transition Confirmed s = (s = Shipped \<or> s = Cancelled)"
| "spec_transition Shipped s = (s = Delivered \<or> s = Cancelled)"
| "spec_transition Delivered s = False"
| "spec_transition Cancelled s = False"

section \<open>A small shop\<close>

text \<open>
  One active user; three products with five pieces each, the second discontinued, the
  third priced at the binary64 value of \<^verbatim>\<open>0.1\<close>; one order of two pieces of the first
  product, in a given status and with a note.
\<close>

definition example_user :: user where
  "example_user =
     \<lparr>user_name = ''John Doe'', user_email = ''john@example.com'', user_status = Active\<rparr>"

definition example_product :: product where
  "example_product = \<lparr>name = ''MacBook Pro'', price = 10, stockQuantity = 5, status = Available\<rparr>"

definition retired_product :: product where
  "retired_product = \<lparr>name = ''Old Phone'', price = 99, stockQuantity = 5, status = Discontinued\<rparr>"

definition cheap_product :: product where
  "cheap_product =
     \<lparr>name = ''Sticker'', price = binary64 (1 / 10), stockQuantity = 5, status = Available\<rparr>"

definition example_order :: "order_status \<Rightarrow> order" where
  "example_order s =
     \<lparr>user_id = 1, product_id = 1, quantity = 2, unit_price = 10, total_price = 20,
      order_status = s, order_notes = Some ''gift''\<rparr>"

definition example_db :: "order_status \<Rightarrow> db" where
  "example_db s =
     \<lparr>live = \<lparr>users = [1 \<mapsto> example_user],
              products = [1 \<mapsto> example_product, 2 \<mapsto> retired_product, 3 \<mapsto> cheap_product],
              orders = [1 \<mapsto> example_order s], order_seq = 1\<rparr>,
      saved = None\<rparr>"


definition example_request :: "int \<Rightarrow> rat \<Rightarrow> order_data" where
  "example_request pid q =
     \<lparr>data_user_id = 1, data_product_id = pid, data_quantity = q, data_notes = None\<rparr>"

definition example_body :: "rat \<Rightarrow> order_body" where
  "example_body q =
     \<lparr>body_user_id = Some 1, body_product_id = Some 1, body_quantity = Some q,
      body_notes = None\<rparr>"

section \<open>The stock ledger rule\<close>

text \<open>A product row obeys the rule when it is out of stock exactly when nothing is left.\<close>

definition ledger_ok :: "product \<Rightarrow> bool" where
  "ledger_ok p \<longleftrightarrow> (status p = Out_of_stock \<longleftrightarrow> stockQuantity p = 0)"

section \<open>Facts about the primitives\<close>

lemmas example_defs = example_db_def example_user_def example_product_def retired_product_def
  cheap_product_def example_order_def example_request_def

lemmas transaction_defs = beginTransaction_def commitTransaction_def rollbackTransaction_def
  rollback_and_throw_def failed_def

lemma show_int_examples:
  "show_int 0 = ''0''" "show_int 5 = ''5''" "show_int 7 = ''7''" "show_int 123 = ''123''"
  "show_int (- 40) = ''-40''"
  by (simp_all add: show_int_def show_nat.simps digit_char_def)

lemma parseInt_examples:
  "parseInt 2 = 2" "parseInt 3 = 3" "parseInt 5 = 5" "parseInt (5 / 2) = 2"
  by code_simp+

lemma binary64_tenth: "binary64 (1 / 10) = 3602879701896397 / 36028797018963968"
  by code_simp

lemma binary64_hundredth: "binary64 (1 / 100) = 5764607523034235 / 576460752303423488"
  by code_simp

lemma js_times_10_2: "js_times 10 2 = 20"
  unfolding js_times_def by code_simp

lemma js_times_10_5: "js_times 10 5 = 50"
  unfolding js_times_def by code_simp

text \<open>Two pieces at \<^verbatim>\<open>2499.99\<close> cost \<^verbatim>\<open>4999.98\<close>: doubling is exact.\<close>

lemma js_times_doubling:
  "js_times (binary64 (249999 / 100)) 2 = binary64 (499998 / 100)"
  unfolding js_times_def by code_simp

lemma js_times_tenth_3:
  "js_times (3602879701896397 / 36028797018963968) 3 = 1351079888211149 / 4503599627370496"
  unfolding js_times_def by code_simp

lemma order_status_of_name [simp]: "order_status_of (order_status_name s) = Some s"
  by (cases s) (simp_all add: order_status_of_def)

lemma validTransitions_spec:
  "st \<in> set (validTransitions c) \<longleftrightarrow> (\<exists>s. order_status_of st = Some s \<and> spec_transition c s)"
  by (cases c) (auto simp: order_status_of_def)

lemma beginTransaction_Inr:
  "beginTransaction d = Inr d1 \<Longrightarrow> saved d = None \<and> d1 = d\<lparr>saved := Some (live d)\<rparr>"
  by (auto simp: beginTransaction_def split: option.splits)

lemma failed_in_transaction:
  "saved d = Some t \<Longrightarrow> failed e d = (Inl e, d\<lparr>live := t, saved := None\<rparr>)"
  by (simp add: failed_def rollback_and_throw_def rollbackTransaction_def)

lemma failed_not_Inr: "failed e d \<noteq> (Inr r, d')"
  by (simp add: failed_def split: prod.splits)

lemma run_update_order_products:
  "run_update_order d i st nt = Inr (n, d') \<Longrightarrow>
     products (live d') = products (live d) \<and> saved d' = saved d"
  by (auto simp: run_update_order_def split: option.splits)

lemma run_insert_order_saved:
  "run_insert_order F d uid pid q up tp nt = Inr (n, d') \<Longrightarrow> saved d' = saved d"
  by (auto simp: run_insert_order_def Let_def split: if_splits sum.splits)

lemma run_insert_order_products:
  assumes "run_insert_order F d uid pid q up tp nt = Inr (n, d')"
    and "products (live d) pid = Some p"
  shows "products (live d') pid =
           Some (p\<lparr>stockQuantity := stockQuantity p - q,
                    status := (if stockQuantity p - q \<le> 0 then Out_of_stock else status p)\<rparr>)"
  using assms
  by (auto simp: run_insert_order_def update_stock_on_order_def Let_def split: if_splits)

lemma run_commit_live: "run_commit F d = Inr d' \<Longrightarrow> live d' = live d"
  by (auto simp: run_commit_def commitTransaction_def split: if_splits option.splits)

lemma productAvailable_Is_available:
  assumes "fst (productAvailable d pid n) = Is_available s"
  shows "\<exists>p. products (live d) pid = Some p \<and> status p = Available \<and> n \<le> stockQuantity p
           \<and> snap_price s = price p"
  using assms
  by (auto simp: productAvailable_def select_snapshot_def split: option.splits if_splits)

section \<open>Status updates\<close>

lemma updateStatus_legal:
  assumes "findById d i = Some ord" and "st \<in> set (validTransitions (order_status ord))"
    and "order_status_of st = Some s"
  shows "updateStatus d i st nt =
     (let d' = d\<lparr>live := (live d)\<lparr>orders :=
                 (orders (live d))(i \<mapsto> ord\<lparr>order_status := s, order_notes := arg_or None nt\<rparr>)\<rparr>\<rparr>
      in (Inr (findByIdWithDetails d' i), d'))"
  using assms by (simp add: updateStatus_def run_update_order_def findById_def Let_def)

lemma updateStatus_illegal:
  assumes "findById d i = Some ord" and "st \<notin> set (validTransitions (order_status ord))"
  shows "updateStatus d i st nt =
     (Inl (''Cannot change status from '' @ order_status_name (order_status ord) @ '' to '' @ st), d)"
  using assms by (simp add: updateStatus_def Let_def)

text \<open>A status update never touches the products table.\<close>

lemma updateStatus_keeps_products:
  "products (live (snd (updateStatus d i st nt))) = products (live d)"
proof (cases "findById d i")
  case None
  then show ?thesis by (simp add: updateStatus_def)
next
  case (Some ord)
  show ?thesis
  proof (cases "run_update_order d i st (arg_or None nt)")
    case (Inl e)
    with Some show ?thesis by (simp add: updateStatus_def Let_def)
  next
    case (Inr res)
    obtain n d' where "res = (n, d')" by (cases res)
    with Some Inr run_update_order_products [of d i st "arg_or None nt" n d']
    show ?thesis by (simp add: updateStatus_def Let_def)
  qed
qed

text \<open>
  Claim C3. For an existing order, \<^verbatim>\<open>updateStatus\<close> moves the status only along the table
  pending to confirmed or cancelled, confirmed to shipped or cancelled, shipped to
  delivered or cancelled, and nothing out of delivered or cancelled: a request that the
  table allows succeeds and stores the requested status; any other request is rejected
  with the message that names the current and the requested status, and the connection,
  so the order's status too, is as before.
\<close>

theorem updateStatus_follows_table:
  assumes "findById d i = Some ord"
  shows "(\<forall>s. order_status_of st = Some s \<and> spec_transition (order_status ord) s \<longrightarrow>
            (\<exists>r d'. updateStatus d i st nt = (Inr r, d') \<and>
                     map_option order_status (findById d' i) = Some s))
       \<and> (\<not> (\<exists>s. order_status_of st = Some s \<and> spec_transition (order_status ord) s) \<longrightarrow>
            updateStatus d i st nt =
              (Inl (''Cannot change status from '' @ order_status_name (order_status ord)
                    @ '' to '' @ st), d))"
proof (intro conjI allI impI)
  fix s assume h: "order_status_of st = Some s \<and> spec_transition (order_status ord) s"
  then have "st \<in> set (validTransitions (order_status ord))"
    by (auto simp: validTransitions_spec)
  from updateStatus_legal [OF assms this, of s nt] h
  show "\<exists>r d'. updateStatus d i st nt = (Inr r, d') \<and>
                map_option order_status (findById d' i) = Some s"
    by (simp add: Let_def findById_def)
next
  assume "\<not> (\<exists>s. order_status_of st = Some s \<and> spec_transition (order_status ord) s)"
  then have "st \<notin> set (validTransitions (order_status ord))"
    by (simp add: validTransitions_spec)
  from updateStatus_illegal [OF assms this]
  show "updateStatus d i st nt =
              (Inl (''Cannot change status from '' @ order_status_name (order_status ord)
                    @ '' to '' @ st), d)" .
qed

theorem updateStatus_follows_table_witness:
  "updateStatus (example_db Delivered) 1 ''pending'' Omitted =
     (Inl ''Cannot change status from delivered to pending'', example_db Delivered)
   \<and> (\<exists>r d'. updateStatus (example_db Pending) 1 ''confirmed'' Omitted = (Inr r, d') \<and>
         map_option order_status (findById d' 1) = Some Confirmed)"
proof -
  have a: "findById (example_db Delivered) 1 = Some (example_order Delivered)"
    by (simp add: findById_def example_db_def)
  have b: "findById (example_db Pending) 1 = Some (example_order Pending)"
    by (simp add: findById_def example_db_def)
  have c: "order_status_of ''confirmed'' = Some Confirmed"
    "order_status_of ''pending'' = Some Pending"
    by (simp_all add: order_status_of_def)
  from updateStatus_follows_table [OF a, of "''pending''" Omitted]
       updateStatus_follows_table [OF b, of "''confirmed''" Omitted] c
  show ?thesis by (simp add: example_order_def)
qed

text \<open>
  Claim C10. A legal status update writes its notes argument into the order's notes,
  and the argument defaults to \<^verbatim>\<open>null\<close>: called without notes, the update succeeds and
  leaves the notes \<^verbatim>\<open>null\<close>, whatever was stored before.
\<close>

theorem updateStatus_writes_notes:
  assumes "findById d i = Some ord" and "st \<in> set (validTransitions (order_status ord))"
  shows "(\<exists>r d'. updateStatus d i st nt = (Inr r, d') \<and>
            map_option order_notes (findById d' i) = Some (arg_or None nt))
       \<and> (\<exists>r d'. updateStatus d i st Omitted = (Inr r, d') \<and>
            map_option order_notes (findById d' i) = Some None)"
proof -
  from assms(2) obtain s where s: "order_status_of st = Some s"
    by (auto simp: validTransitions_spec)
  show ?thesis
    using updateStatus_legal [OF assms s, of nt] updateStatus_legal [OF assms s, of Omitted]
    by (simp add: Let_def findById_def)
qed

theorem updateStatus_writes_notes_witness:
  "order_notes (example_order Pending) = Some ''gift''
   \<and> (\<exists>r d'. updateStatus (example_db Pending) 1 ''confirmed'' Omitted = (Inr r, d') \<and>
         map_option order_notes (findById d' 1) = Some None)"
proof -
  have a: "findById (example_db Pending) 1 = Some (example_order Pending)"
    by (simp add: findById_def example_db_def)
  have b: "''confirmed'' \<in> set (validTransitions (order_status (example_order Pending)))"
    by (simp add: example_order_def)
  from updateStatus_writes_notes [OF a b, of Omitted]
  show ?thesis by (simp add: example_order_def)
qed


text \<open>
  Claim C2. Every operation that moves a pending, confirmed or shipped order to
  cancelled restores the product's stock. The status update does not; on the shop with
  its order pending:
  \<^verbatim>\<open>updateStatus\<close> to \<^verbatim>\<open>'cancelled'\<close> succeeds and stores the status cancelled, and the
  product keeps its five pieces; \<^verbatim>\<open>cancel\<close> of the same order gives the two pieces
  back.
\<close>

theorem updateStatus_cancelled_keeps_stock:
  "findById (snd (updateStatus (example_db Pending) 1 ''cancelled'' Omitted)) 1
     = Some ((example_order Cancelled)\<lparr>order_notes := None\<rparr>)
   \<and> product_findById (snd (updateStatus (example_db Pending) 1 ''cancelled'' Omitted)) 1
     = Some example_product
   \<and> stockQuantity example_product = 5
   \<and> findById (snd (cancel (example_db Pending) 1 Omitted)) 1
     = Some ((example_order Cancelled)\<lparr>order_notes := None\<rparr>)
   \<and> product_findById (snd (cancel (example_db Pending) 1 Omitted)) 1
     = Some (example_product\<lparr>stockQuantity := 7\<rparr>)"
  by (simp add: updateStatus_def cancel_def findById_def findByIdWithDetails_def
      run_update_order_def run_restore_stock_def order_status_of_def product_findById_def
      transaction_defs example_defs Let_def)

section \<open>Cancellation\<close>

text \<open>
  What \<^verbatim>\<open>cancel\<close> does to an order that is neither cancelled nor delivered, outside a
  transaction and with the product's new stock passing the table's \<^verbatim>\<open>CHECK\<close>.
\<close>

lemma cancel_restores_stock:
  assumes "findById d i = Some ord"
    and "order_status ord \<noteq> Cancelled" and "order_status ord \<noteq> Delivered"
    and "saved d = None"
    and "products (live d) (product_id ord) = Some p"
    and "0 \<le> stockQuantity p + quantity ord"
  shows "\<exists>r d'. cancel d i reason = (Inr r, d')
           \<and> findById d' i =
               Some (ord\<lparr>order_status := Cancelled, order_notes := arg_or None reason\<rparr>)
           \<and> products (live d') (product_id ord) =
               Some (p\<lparr>stockQuantity := stockQuantity p + quantity ord,
                        status := (if status p = Out_of_stock \<and> stockQuantity p + quantity ord > 0
                                   then Available else status p)\<rparr>)"
  using assms
  by (simp add: cancel_def Let_def beginTransaction_def run_update_order_def
      run_restore_stock_def commitTransaction_def findById_def order_status_of_def)

lemma cancel_ledger:
  assumes "findById d i = Some ord"
    and "order_status ord \<noteq> Cancelled" and "order_status ord \<noteq> Delivered"
    and "saved d = None"
    and "products (live d) (product_id ord) = Some p"
    and "0 \<le> stockQuantity p" and "0 < quantity ord"
  shows "\<exists>p'. products (live (snd (cancel d i reason))) (product_id ord) = Some p' \<and> ledger_ok p'"
proof -
  from assms(6,7) have "0 \<le> stockQuantity p + quantity ord" by simp
  from cancel_restores_stock [OF assms(1-5) this, of reason] assms(6,7)
  show ?thesis by (auto simp: ledger_ok_def)
qed

text \<open>
  Claim C9. For an order whose status is cancelled or delivered, \<^verbatim>\<open>cancel\<close> rejects the
  request with its business-rule message and returns the connection as it was: the
  order keeps its status and no product's stock is touched, so a cancelled order's
  stock is never restored a second time.
\<close>

theorem cancel_terminal_rejected:
  assumes "findById d i = Some ord"
    and "order_status ord = Cancelled \<or> order_status ord = Delivered"
  shows "cancel d i reason =
           (Inl (if order_status ord = Cancelled then ''Order is already cancelled''
                 else ''Cannot cancel delivered order''), d)"
  using assms by (auto simp: cancel_def Let_def)

theorem cancel_terminal_rejected_witness:
  "cancel (example_db Cancelled) 1 Omitted =
     (Inl ''Order is already cancelled'', example_db Cancelled)
   \<and> cancel (example_db Delivered) 1 (Given (Some ''late'')) =
       (Inl ''Cannot cancel delivered order'', example_db Delivered)"
proof -
  have a: "findById (example_db Cancelled) 1 = Some (example_order Cancelled)"
    by (simp add: findById_def example_db_def)
  have b: "findById (example_db Delivered) 1 = Some (example_order Delivered)"
    by (simp add: findById_def example_db_def)
  from cancel_terminal_rejected [OF a, of Omitted]
       cancel_terminal_rejected [OF b, of "Given (Some ''late'')"]
  show ?thesis by (simp add: example_order_def)
qed

section \<open>The availability validator\<close>

text \<open>
  Claim C6. \<^verbatim>\<open>productAvailable\<close> fails closed and only reads: a missing product is
  unavailable with the reason "Product not found"; a product whose status is not
  available is unavailable with a reason that names its status; an available product
  with less stock than requested is unavailable with a reason that prints the stock and
  the request; otherwise the answer is available with the snapshot of id, name, price,
  stockQuantity and status. In every case the connection comes back unchanged.
\<close>

theorem productAvailable_fails_closed:
  "(products (live d) pid = None \<longrightarrow>
      productAvailable d pid q = (Not_available ''Product not found'', d))
   \<and> (\<forall>p. products (live d) pid = Some p \<and> status p \<noteq> Available \<longrightarrow>
        productAvailable d pid q =
          (Not_available (''Product is '' @ product_status_name (status p)), d))
   \<and> (\<forall>p. products (live d) pid = Some p \<and> status p = Available \<and> stockQuantity p < q \<longrightarrow>
        productAvailable d pid q =
          (Not_available (''Insufficient stock. Available: '' @ show_int (stockQuantity p)
                           @ '', Requested: '' @ show_int q), d))
   \<and> (\<forall>p. products (live d) pid = Some p \<and> status p = Available \<and> q \<le> stockQuantity p \<longrightarrow>
        productAvailable d pid q =
          (Is_available \<lparr>snap_id = pid, snap_name = name p, snap_price = price p,
                          snap_stockQuantity = stockQuantity p, snap_status = status p\<rparr>, d))"
  by (simp add: productAvailable_def select_snapshot_def)

theorem productAvailable_fails_closed_witness:
  "productAvailable (example_db Pending) 4 1 =
     (Not_available ''Product not found'', example_db Pending)
   \<and> productAvailable (example_db Pending) 2 1 =
       (Not_available ''Product is discontinued'', example_db Pending)
   \<and> productAvailable (example_db Pending) 1 7 =
       (Not_available ''Insufficient stock. Available: 5, Requested: 7'', example_db Pending)
   \<and> productAvailable (example_db Pending) 1 5 =
       (Is_available \<lparr>snap_id = 1, snap_name = ''MacBook Pro'', snap_price = 10,
                       snap_stockQuantity = 5, snap_status = Available\<rparr>, example_db Pending)"
proof -
  have a: "products (live (example_db Pending)) 4 = None"
    by (simp add: example_db_def)
  have b: "products (live (example_db Pending)) 1 = Some example_product"
    by (simp add: example_db_def)
  have c: "products (live (example_db Pending)) 2 = Some retired_product"
    by (simp add: example_db_def)
  from productAvailable_fails_closed [of "example_db Pending" 4 1]
       productAvailable_fails_closed [of "example_db Pending" 2 1]
       productAvailable_fails_closed [of "example_db Pending" 1 7]
       productAvailable_fails_closed [of "example_db Pending" 1 5] a b c
  show ?thesis by (simp add: example_product_def retired_product_def show_int_examples)
qed


section \<open>Stock adjustment and product update\<close>

text \<open>
  What a successful \<^verbatim>\<open>updateStock\<close> stores: the new quantity, and the status out of
  stock when it is zero and available otherwise, whatever the status was.
\<close>

lemma updateStock_sets_status:
  assumes "updateStock d i q operation = (Inr r, d')"
  shows "\<exists>p. products (live d) i = Some p
           \<and> products (live d') i =
               Some (p\<lparr>stockQuantity :=
                          (if arg_or ''subtract'' operation = ''add'' then stockQuantity p + q
                           else stockQuantity p - q),
                        status :=
                          (if (if arg_or ''subtract'' operation = ''add'' then stockQuantity p + q
                               else stockQuantity p - q) = 0
                           then Out_of_stock else Available)\<rparr>)"
proof (cases "beginTransaction d")
  case (Inl e)
  with assms show ?thesis by (simp add: updateStock_def Let_def failed_not_Inr)
next
  case (Inr d1)
  from beginTransaction_Inr [OF Inr]
  have d1: "d1 = d\<lparr>saved := Some (live d)\<rparr>" by simp
  show ?thesis
  proof (cases "products (live d) i")
    case None
    with assms Inr d1 show ?thesis
      by (simp add: updateStock_def Let_def failed_not_Inr product_findById_def)
  next
    case (Some p)
    let ?op = "arg_or ''subtract'' operation"
    let ?n = "if ?op = ''add'' then stockQuantity p + q else stockQuantity p - q"
    from assms Inr d1 Some have op: "?op = ''add'' \<or> ?op = ''subtract''"
      by (auto simp: updateStock_def Let_def failed_not_Inr product_findById_def
          split: if_splits)
    from assms Inr d1 Some op have n: "0 \<le> ?n"
      by (auto simp: updateStock_def Let_def failed_not_Inr product_findById_def
          run_set_stock_def split: if_splits)
    from assms Inr d1 Some op n show ?thesis
      by (auto simp: updateStock_def Let_def failed_not_Inr product_findById_def
          run_set_stock_def commitTransaction_def split: if_splits)
  qed
qed

lemma updateStock_ledger:
  assumes "updateStock d i q operation = (Inr r, d')" and "products (live d') i = Some p'"
  shows "ledger_ok p'"
  using updateStock_sets_status [OF assms(1)] assms(2)
  by (auto simp: ledger_ok_def split: if_splits)

text \<open>
  Claim C5. A successful stock adjustment sets the status to out of stock when the new
  quantity is zero, to available when it is positive and the product was out of stock,
  and leaves the status alone otherwise, a discontinued product included. The code
  departs from this on the discontinued product of the shop, five pieces in stock: adding one piece succeeds,
  and the product is stored with six pieces and the status available.
\<close>

theorem updateStock_revives_discontinued:
  "product_findById (example_db Pending) 2 = Some retired_product
   \<and> status retired_product = Discontinued
   \<and> fst (updateStock (example_db Pending) 2 1 (Given ''add''))
      = Inr (Some (retired_product\<lparr>stockQuantity := 6, status := Available\<rparr>))
   \<and> product_findById (snd (updateStock (example_db Pending) 2 1 (Given ''add''))) 2
      = Some (retired_product\<lparr>stockQuantity := 6, status := Available\<rparr>)"
  by (simp add: updateStock_def run_set_stock_def product_findById_def transaction_defs
      example_defs Let_def)

text \<open>
  Claim C4. After every committed operation that changes a product's stock, product
  update among them, the product is out of stock exactly when its stock is zero.
  Product update departs from this on the first product of the shop, available with five
  pieces: the update
  with \<^verbatim>\<open>{stockQuantity: 0}\<close> succeeds and stores zero pieces with the status still
  available, a row that breaks the rule. (Order creation, \<^verbatim>\<open>cancel\<close> and \<^verbatim>\<open>updateStock\<close>
  keep it: \<open>create_ledger\<close>, \<open>cancel_ledger\<close>, \<open>updateStock_ledger\<close>.)
\<close>

theorem product_update_breaks_ledger:
  "product_update (example_db Pending) 1
      \<lparr>upd_price = None, upd_stockQuantity = Some 0, upd_status = None\<rparr>
   = (Inr (Some (example_product\<lparr>stockQuantity := 0\<rparr>)),
      snd (product_update (example_db Pending) 1
             \<lparr>upd_price = None, upd_stockQuantity = Some 0, upd_status = None\<rparr>))
   \<and> product_findById
        (snd (product_update (example_db Pending) 1
               \<lparr>upd_price = None, upd_stockQuantity = Some 0, upd_status = None\<rparr>)) 1
      = Some (example_product\<lparr>stockQuantity := 0\<rparr>)
   \<and> status (example_product\<lparr>stockQuantity := 0\<rparr>) = Available
   \<and> \<not> ledger_ok (example_product\<lparr>stockQuantity := 0\<rparr>)"
  by (simp add: product_update_def run_update_product_def set_fields_def product_findById_def
      binary64_hundredth ledger_ok_def example_defs Let_def)

section \<open>Order creation\<close>

text \<open>
  When the read-back is not the call that fails, a failed \<^verbatim>\<open>create\<close> leaves the
  connection exactly as it found it: a failure of the insert, of its trigger or of the
  commit is rolled back, and a failure before the transaction changes nothing.
\<close>

lemma create_failure_restores:
  assumes "create F d orderData = (Inl e, d')" and "Read_back \<notin> F"
  shows "d' = d"
proof -
  let ?n = "parseInt (data_quantity orderData)"
  show ?thesis
  proof (cases "data_user_id orderData = 0 \<or> data_product_id orderData = 0
        \<or> data_quantity orderData = 0 \<or> ?n \<le> 0 \<or> \<not> userExists d (data_user_id orderData)")
    case True
    with assms(1) show ?thesis
      by (auto simp: create_def Let_def split: if_splits)
  next
    case valid: False
    show ?thesis
    proof (cases "fst (productAvailable d (data_product_id orderData) ?n)")
      case (Not_available r)
      with assms(1) valid show ?thesis by (simp add: create_def Let_def)
    next
      case (Is_available p)
      show ?thesis
      proof (cases "beginTransaction d")
        case (Inl b)
        with assms(1) valid Is_available show ?thesis by (simp add: create_def Let_def)
      next
        case (Inr d1)
        from beginTransaction_Inr [OF Inr]
        have none: "saved d = None" and d1: "d1 = d\<lparr>saved := Some (live d)\<rparr>" by simp_all
        have restore1: "d1\<lparr>live := live d, saved := None\<rparr> = d" using none d1 by simp
        have s1: "saved d1 = Some (live d)" using d1 by simp
        let ?ins = "run_insert_order F d1 (data_user_id orderData) (data_product_id orderData) ?n
            (snap_price p) (js_times (snap_price p) (of_int ?n)) (or_null (data_notes orderData))"
        show ?thesis
        proof (cases ?ins)
          case (Inl x)
          with valid Is_available Inr have "create F d orderData = failed x d1"
            by (simp add: create_def Let_def)
          with assms(1) show ?thesis
            by (simp add: failed_in_transaction [OF s1] restore1)
        next
          case ins: (Inr res)
          obtain n d2 where res: "res = (n, d2)" by (cases res)
          from run_insert_order_saved ins res s1 have s2: "saved d2 = Some (live d)" by metis
          have restore2: "d2\<lparr>live := live d, saved := None\<rparr> = d"
            using none s2 by (cases d2, cases d) simp
          show ?thesis
          proof (cases "run_commit F d2")
            case (Inl x)
            with valid Is_available Inr ins res have "create F d orderData = failed x d2"
              by (simp add: create_def Let_def)
            with assms(1) show ?thesis
              by (simp add: failed_in_transaction [OF s2] restore2)
          next
            case com: (Inr d3)
            with assms valid Is_available Inr ins res
            show ?thesis by (simp add: create_def Let_def read_back_def)
          qed
        qed
      qed
    qed
  qed
qed


lemmas create_defs = create_def userExists_def productAvailable_def select_snapshot_def
  run_insert_order_def update_stock_on_order_def run_commit_def read_back_def
  findByIdWithDetails_def or_null_def engine_error_def transaction_defs

text \<open>On the shop: the insert or the commit fails, and the rollback undoes everything.\<close>

lemma create_rolls_back_examples:
  "create {Insert_order} (example_db Pending) (example_request 1 2)
     = (Inl engine_error, example_db Pending)"
  "create {Commit} (example_db Pending) (example_request 1 2)
     = (Inl engine_error, example_db Pending)"
  by (simp_all add: create_defs example_defs parseInt_examples js_times_10_2 Let_def)

text \<open>
  On the shop: an order for all five pieces empties the stock and marks the product out
  of stock; cancelling that order gives the five pieces back and makes the product
  available again.
\<close>

lemma create_then_cancel_example:
  "product_findById (snd (create {} (example_db Pending) (example_request 1 5))) 1
     = Some (example_product\<lparr>stockQuantity := 0, status := Out_of_stock\<rparr>)"
  "product_findById
     (snd (cancel (snd (create {} (example_db Pending) (example_request 1 5))) 2 Omitted)) 1
     = Some example_product"
  "map_option order_status
     (findById (snd (cancel (snd (create {} (example_db Pending) (example_request 1 5))) 2
                   Omitted)) 2)
     = Some Cancelled"
  by (simp_all add: create_defs cancel_def run_update_order_def run_restore_stock_def
      order_status_of_def findById_def product_findById_def example_defs parseInt_examples
      js_times_10_5 Let_def)

text \<open>What a successful \<^verbatim>\<open>create\<close> does to the product it orders.\<close>

lemma create_decrements_stock:
  assumes "create F d orderData = (Inr r, d')"
  shows "\<exists>p. products (live d) (data_product_id orderData) = Some p
           \<and> status p = Available
           \<and> 0 < parseInt (data_quantity orderData)
           \<and> parseInt (data_quantity orderData) \<le> stockQuantity p
           \<and> products (live d') (data_product_id orderData) =
               Some (p\<lparr>stockQuantity := stockQuantity p - parseInt (data_quantity orderData),
                        status := (if stockQuantity p - parseInt (data_quantity orderData) \<le> 0
                                   then Out_of_stock else status p)\<rparr>)"
proof -
  let ?n = "parseInt (data_quantity orderData)"
  let ?pid = "data_product_id orderData"
  from assms have valid: "\<not> (data_user_id orderData = 0 \<or> ?pid = 0
        \<or> data_quantity orderData = 0 \<or> ?n \<le> 0 \<or> \<not> userExists d (data_user_id orderData))"
    by (auto simp: create_def Let_def split: if_splits)
  show ?thesis
  proof (cases "fst (productAvailable d ?pid ?n)")
    case (Not_available x)
    with assms valid show ?thesis by (simp add: create_def Let_def)
  next
    case (Is_available s)
    from productAvailable_Is_available [OF Is_available]
    obtain p where p: "products (live d) ?pid = Some p" "status p = Available"
      "?n \<le> stockQuantity p" by blast
    show ?thesis
    proof (cases "beginTransaction d")
      case (Inl e)
      with assms valid Is_available show ?thesis by (simp add: create_def Let_def)
    next
      case (Inr d1)
      from beginTransaction_Inr [OF Inr] have d1: "live d1 = live d" by simp
      let ?ins = "run_insert_order F d1 (data_user_id orderData) ?pid ?n
            (snap_price s) (js_times (snap_price s) (of_int ?n)) (or_null (data_notes orderData))"
      show ?thesis
      proof (cases ?ins)
        case (Inl e)
        with assms valid Is_available Inr show ?thesis
          by (simp add: create_def Let_def failed_not_Inr)
      next
        case ins: (Inr res)
        obtain n d2 where res: "res = (n, d2)" by (cases res)
        from run_insert_order_products [of F d1 _ ?pid ?n _ _ _ n d2 p] ins res p(1) d1
        have p2: "products (live d2) ?pid =
           Some (p\<lparr>stockQuantity := stockQuantity p - ?n,
                    status := (if stockQuantity p - ?n \<le> 0 then Out_of_stock else status p)\<rparr>)"
          by simp
        show ?thesis
        proof (cases "run_commit F d2")
          case (Inl e)
          with assms valid Is_available Inr ins res show ?thesis
            by (simp add: create_def Let_def failed_not_Inr)
        next
          case com: (Inr d3)
          from run_commit_live [OF com] have d3: "live d3 = live d2" .
          from assms valid Is_available Inr ins res com have "d' = d3"
            by (auto simp: create_def Let_def failed_not_Inr split: sum.splits)
          with p p2 d3 valid show ?thesis by simp
        qed
      qed
    qed
  qed
qed

lemma create_ledger:
  assumes "create F d orderData = (Inr r, d')"
    and "products (live d') (data_product_id orderData) = Some p'"
  shows "ledger_ok p'"
proof -
  let ?n = "parseInt (data_quantity orderData)"
  from create_decrements_stock [OF assms(1)] assms(2)
  obtain p where p: "status p = Available" "?n \<le> stockQuantity p"
    and p': "p' = p\<lparr>stockQuantity := stockQuantity p - ?n,
                    status := (if stockQuantity p - ?n \<le> 0 then Out_of_stock else status p)\<rparr>"
    by auto
  show ?thesis unfolding p' ledger_ok_def using p by simp
qed

lemma run_insert_order_row:
  assumes "run_insert_order F d uid pid q up tp nt = Inr (n, d')"
  shows "n = order_seq (live d) + 1
       \<and> orders (live d') n =
           Some \<lparr>user_id = uid, product_id = pid, quantity = q, unit_price = up,
                  total_price = tp, order_status = Pending, order_notes = nt\<rparr>"
  using assms
  by (auto simp: run_insert_order_def update_stock_on_order_def Let_def
      split: if_splits option.splits)

text \<open>
  The row that a successful \<^verbatim>\<open>create\<close> stores: the quantity that \<^verbatim>\<open>parseInt\<close> reads,
  and as total the
  binary64 product of the unit price and that quantity.
\<close>

lemma create_stores_rounded_total:
  assumes "create F d orderData = (Inr r, d')"
  shows "\<exists>ord. findById d' (order_seq (live d) + 1) = Some ord
           \<and> quantity ord = parseInt (data_quantity orderData)
           \<and> total_price ord = js_times (unit_price ord) (of_int (quantity ord))"
proof -
  let ?n = "parseInt (data_quantity orderData)"
  let ?pid = "data_product_id orderData"
  from assms have valid: "\<not> (data_user_id orderData = 0 \<or> ?pid = 0
        \<or> data_quantity orderData = 0 \<or> ?n \<le> 0 \<or> \<not> userExists d (data_user_id orderData))"
    by (auto simp: create_def Let_def split: if_splits)
  show ?thesis
  proof (cases "fst (productAvailable d ?pid ?n)")
    case (Not_available x)
    with assms valid show ?thesis by (simp add: create_def Let_def)
  next
    case (Is_available s)
    show ?thesis
    proof (cases "beginTransaction d")
      case (Inl e)
      with assms valid Is_available show ?thesis by (simp add: create_def Let_def)
    next
      case (Inr d1)
      from beginTransaction_Inr [OF Inr] have d1: "live d1 = live d" by simp
      let ?ins = "run_insert_order F d1 (data_user_id orderData) ?pid ?n
            (snap_price s) (js_times (snap_price s) (of_int ?n)) (or_null (data_notes orderData))"
      show ?thesis
      proof (cases ?ins)
        case (Inl e)
        with assms valid Is_available Inr show ?thesis
          by (simp add: create_def Let_def failed_not_Inr)
      next
        case ins: (Inr res)
        obtain n d2 where res: "res = (n, d2)" by (cases res)
        from run_insert_order_row [of F d1 _ ?pid ?n _ _ _ n d2] ins res d1
        have row: "n = order_seq (live d) + 1"
          "orders (live d2) n =
             Some \<lparr>user_id = data_user_id orderData, product_id = ?pid, quantity = ?n,
                    unit_price = snap_price s,
                    total_price = js_times (snap_price s) (of_int ?n),
                    order_status = Pending, order_notes = or_null (data_notes orderData)\<rparr>"
          by simp_all
        show ?thesis
        proof (cases "run_commit F d2")
          case (Inl e)
          with assms valid Is_available Inr ins res show ?thesis
            by (simp add: create_def Let_def failed_not_Inr)
        next
          case com: (Inr d3)
          from run_commit_live [OF com] have d3: "live d3 = live d2" .
          from assms valid Is_available Inr ins res com have "d' = d3"
            by (auto simp: create_def Let_def failed_not_Inr split: sum.splits)
          with row d3 show ?thesis by (simp add: findById_def)
        qed
      qed
    qed
  qed
qed

text \<open>No later operation of the order model rewrites the prices.\<close>

lemma updateStatus_keeps_prices:
  assumes "findById d i = Some ord" and "findById (snd (updateStatus d j st nt)) i = Some ord'"
  shows "quantity ord' = quantity ord \<and> unit_price ord' = unit_price ord
       \<and> total_price ord' = total_price ord"
  using assms
  by (auto simp: updateStatus_def run_update_order_def findById_def Let_def
      split: option.splits if_splits)

text \<open>
  Claim C1. If any step of \<^verbatim>\<open>create\<close> fails once its unit of work has begun, no order
  row exists afterwards and the product's stock and status are as before the call.
  The code departs from this on the shop, for two pieces of the first product, when the
  read-back of line 77 is the call that fails: the commit has already happened, the rollback of the
  \<^verbatim>\<open>catch\<close> finds no transaction, and \<^verbatim>\<open>create\<close> fails while order 2, absent before,
  is stored and the stock has gone from five to three. (Failures of the insert, its
  trigger and the commit are undone: \<open>create_failure_restores\<close>.)
\<close>

theorem create_read_back_failure_leaves_order:
  "isl (fst (create {Read_back} (example_db Pending) (example_request 1 2)))
   \<and> findById (example_db Pending) 2 = None
   \<and> findById (snd (create {Read_back} (example_db Pending) (example_request 1 2))) 2
      = Some \<lparr>user_id = 1, product_id = 1, quantity = 2, unit_price = 10, total_price = 20,
              order_status = Pending, order_notes = None\<rparr>
   \<and> product_findById (example_db Pending) 1 = Some example_product
   \<and> product_findById (snd (create {Read_back} (example_db Pending) (example_request 1 2))) 1
      = Some (example_product\<lparr>stockQuantity := 3\<rparr>)
   \<and> saved (snd (create {Read_back} (example_db Pending) (example_request 1 2))) = None"
  by (simp add: create_defs findById_def product_findById_def example_defs parseInt_examples
      js_times_10_2 Let_def)

section \<open>The quantity of an order\<close>

lemma pow10_pos: "0 < pow10 k"
  by (simp add: pow10_def)

lemma digits_at_nonneg:
  assumes "0 < v" and "digits_at v n k = Some r"
  shows "0 \<le> r"
proof -
  let ?u = "pow10 (n - int k)"
  have u: "0 < ?u" by (rule pow10_pos)
  with assms(1) have "0 \<le> v / ?u" by simp
  then have s: "0 \<le> \<lfloor>v / ?u\<rfloor>" by simp
  from s u have lo: "0 \<le> of_int \<lfloor>v / ?u\<rfloor> * ?u" by simp
  from s u have hi: "0 \<le> of_int (\<lfloor>v / ?u\<rfloor> + 1) * ?u" by simp
  from assms(2) lo hi show ?thesis
    by (auto simp: digits_at_def Let_def split: if_splits)
qed

lemma shortest_nonneg: "0 < v \<Longrightarrow> 0 \<le> shortest fuel k v n"
proof (induction fuel arbitrary: k)
  case 0
  then show ?case by simp
next
  case (Suc fuel)
  then show ?case
    by (auto split: option.splits dest: digits_at_nonneg)
qed

lemma parseInt_nonpositive: "q \<le> 0 \<Longrightarrow> parseInt q \<le> 0"
proof -
  assume q: "q \<le> 0"
  show ?thesis
  proof (cases "q = 0")
    case True
    then show ?thesis by (simp add: parseInt_def)
  next
    case False
    with q have neg: "q < 0" by simp
    then have "0 < \<bar>q\<bar>" by simp
    then have r: "0 \<le> shortest_decimal \<bar>q\<bar>"
      unfolding shortest_decimal_def by (rule shortest_nonneg)
    let ?r = "shortest_decimal \<bar>q\<bar>"
    let ?n = "floor_log10 ?r + 1"
    from r have a: "0 \<le> \<lfloor>?r\<rfloor>" by simp
    from r pow10_pos [of "?n - 1"] have "0 \<le> ?r / pow10 (?n - 1)" by simp
    then have b: "0 \<le> \<lfloor>?r / pow10 (?n - 1)\<rfloor>" by simp
    from neg a b show ?thesis by (simp add: parseInt_def Let_def)
  qed
qed

text \<open>
  \<^verbatim>\<open>create\<close> itself rejects a quantity that is zero or negative, before anything runs.
\<close>

lemma create_rejects_nonpositive:
  assumes "data_quantity orderData \<le> 0"
  shows "create F d orderData = (Inl ''User ID, Product ID, and quantity are required'', d)
       \<or> create F d orderData = (Inl ''Quantity must be a positive integer'', d)"
  using parseInt_nonpositive [OF assms] by (simp add: create_def Let_def)



text \<open>On the shop: a well-formed request for two pieces goes through to \<^verbatim>\<open>create\<close>.\<close>

lemma post_orders_example:
  "res_status (fst (post_orders 100 {} (example_db Pending) (example_body 2))) = 201"
  "findById (snd (post_orders 100 {} (example_db Pending) (example_body 2))) 2
     = Some \<lparr>user_id = 1, product_id = 1, quantity = 2, unit_price = 10, total_price = 20,
             order_status = Pending, order_notes = None\<rparr>"
  by (simp_all add: post_orders_def schemas_createOrder_def positive_integer_def
      customValidation_quantity_def joi_number_def joi_integer_def joi_positive_def
      math_trunc_def example_body_def create_defs findById_def example_defs
      parseInt_examples js_times_10_2 Let_def)



text \<open>
  Claim C7. For every order, \<^verbatim>\<open>total_price\<close> is exactly \<^verbatim>\<open>unit_price\<close> times the quantity.
  The code departs from this on the shop for three pieces of the third product, whose price is the
  binary64 value of \<^verbatim>\<open>0.1\<close>: the order is stored with that unit price and with the total
  \<^verbatim>\<open>0.30000000000000004\<close>, the binary64 value nearest to the product, which is not the
  unit price times three.
\<close>

theorem create_total_price_rounded:
  "map_option (\<lambda>ord. (quantity ord, unit_price ord, total_price ord,
                       total_price ord = unit_price ord * of_int (quantity ord)))
     (findById (snd (create {} (example_db Pending) (example_request 3 3))) 2)
   = Some (3, 3602879701896397 / 36028797018963968, 1351079888211149 / 4503599627370496, False)"
  by (simp add: create_defs findById_def example_defs parseInt_examples binary64_tenth
      js_times_tenth_3 Let_def)

end
